theory Spec2Isabelle
  imports Complex_Main "HOL-Library.AList" "HOL-Library.Char_ord" "HOL-Library.List_Lexorder"
begin

section \<open>The relay backend of backend/main.py\<close>

text \<open>
  The module defines one FastAPI application with a CORS middleware and three GET
  handlers. Each handler builds one outbound request, hands it to an HTTP client
  (\<open>requests.get\<close> or \<open>httpx.AsyncClient.get\<close>), and returns a value computed from the
  reply. The model makes the one effect of a handler explicit: a handler takes its
  arguments together with the outcome of its single upstream call, and returns the
  request it sent paired with its own outcome, an exception being \<open>Inl\<close>.
\<close>

subsection \<open>Data\<close>

text \<open>
  The \<open>float\<close> arguments \<open>lat\<close> and \<open>lon\<close> are only stored, passed on and formatted by
  the handlers: no arithmetic is done on them. They are modelled as \<open>real\<close>, the finite
  values.
\<close>

type_synonym pyfloat = real

text \<open>
  A float inside a decoded JSON document is another matter: \<open>r.json()\<close> yields the
  non-finite floats too (for \<open>1e400\<close>, \<open>-1e400\<close>, \<open>NaN\<close>, \<open>Infinity\<close>), and those cannot
  be written back as JSON.
\<close>

datatype decoded_float = Finite real | PosInf | NegInf | NaN

text \<open>A decoded JSON document, as \<open>r.json()\<close> and a returned \<open>dict\<close> are: a \<open>dict\<close> keeps
  its insertion order, so an object is an association list.\<close>

datatype json_value =
    JNull
  | JBool bool
  | JInt int
  | JFloat decoded_float
  | JStr string
  | JArr "json_value list"
  | JObj "(string \<times> json_value) list"

text \<open>The values of the \<open>params\<close> dictionary of \<open>get_weather\<close>.\<close>

datatype param_value = PFloat pyfloat | PInt int | PStr string

text \<open>What a handler hands to the HTTP client: the URL, the \<open>params=\<close> dictionary and
  the \<open>headers=\<close> dictionary (empty where the call passes none).\<close>

record request =
  url :: string
  params :: "(string \<times> param_value) list"
  headers :: "(string \<times> string) list"

text \<open>
  The attributes of a reply that the handlers read: \<open>r.status_code\<close>, \<open>r.text\<close>
  (field \<open>body_text\<close>) and \<open>r.json()\<close>. The last one raises when the body is not a JSON
  text; that is the value \<open>None\<close> of the field \<open>json\<close>. Reading \<open>r.text\<close> is taken to
  be total: a reply always has a text, as the client library documents it.
\<close>

record response =
  status_code :: int
  body_text :: string
  json :: "json_value option"

text \<open>The two ways a handler can fail: the client call raises (no reply at all:
  connection failure, timeout), or \<open>r.json()\<close> raises.\<close>

datatype error = RequestError | JSONDecodeError

type_synonym upstream = "error + response"

type_synonym handled = "request \<times> (error + json_value)"

subsection \<open>\<open>",".join\<close>\<close>

fun join :: "string \<Rightarrow> string list \<Rightarrow> string" where
  "join sep [] = []"
| "join sep [x] = x"
| "join sep (x # y # ys) = x @ sep @ join sep (y # ys)"

subsection \<open>The weather handler\<close>

definition weather_params :: "pyfloat \<Rightarrow> pyfloat \<Rightarrow> string \<Rightarrow> (string \<times> param_value) list" where
  "weather_params lat lon tz =
     [(''latitude'', PFloat lat),
      (''longitude'', PFloat lon),
      (''current'', PStr (join '','' [
          ''temperature_2m'',
          ''apparent_temperature'',
          ''relative_humidity_2m'',
          ''is_day'',
          ''precipitation'',
          ''wind_speed_10m'',
          ''wind_direction_10m'',
          ''weather_code'',
          ''surface_pressure'',
          ''cloud_cover''])),
      (''hourly'', PStr (join '','' [
          ''temperature_2m'',
          ''relative_humidity_2m'',
          ''precipitation'',
          ''cloud_cover'',
          ''wind_speed_10m''])),
      (''daily'', PStr (join '','' [
          ''temperature_2m_max'',
          ''temperature_2m_min'',
          ''uv_index_max'',
          ''sunrise'',
          ''sunset'',
          ''precipitation_sum''])),
      (''forecast_days'', PInt 7),
      (''timezone'', PStr tz)]"

definition get_weather :: "pyfloat \<Rightarrow> pyfloat \<Rightarrow> string \<Rightarrow> upstream \<Rightarrow> handled" where
  "get_weather lat lon tz reply =
     (let req = \<lparr>url = ''https://api.open-meteo.com/v1/forecast'',
                 params = weather_params lat lon tz,
                 headers = []\<rparr>
      in (req,
          case reply of
            Inl e \<Rightarrow> Inl e
          | Inr r \<Rightarrow>
              if status_code r \<noteq> 200
              then Inr (JObj [(''error'', JBool True), (''reason'', JStr (body_text r))])
              else (case json r of
                      None \<Rightarrow> Inl JSONDecodeError
                    | Some doc \<Rightarrow> Inr doc)))"

text \<open>The declared default of the third parameter, \<open>tz: str = "auto"\<close>: the route calls
  the handler with the query parameter when the request has one.\<close>

definition weather_route :: "pyfloat \<Rightarrow> pyfloat \<Rightarrow> string option \<Rightarrow> upstream \<Rightarrow> handled" where
  "weather_route lat lon tz reply =
     get_weather lat lon (case tz of None \<Rightarrow> ''auto'' | Some t \<Rightarrow> t) reply"

subsection \<open>The geocoding handlers\<close>

text \<open>
  Both build their URL with an f-string. \<open>{lat}\<close> and \<open>{lon}\<close> are formatted by Python's
  \<open>str\<close> of a float, which is a parameter \<open>float_str\<close> of the model; \<open>{q}\<close> is a string
  and is inserted as it is.
\<close>

definition reverse_geocode ::
  "(pyfloat \<Rightarrow> string) \<Rightarrow> pyfloat \<Rightarrow> pyfloat \<Rightarrow> upstream \<Rightarrow> handled" where
  "reverse_geocode float_str lat lon reply =
     (let req = \<lparr>url = ''https://nominatim.openstreetmap.org/reverse?format=json&lat=''
                        @ float_str lat @ ''&lon='' @ float_str lon,
                 params = [],
                 headers = [(''User-Agent'', ''WeatherApp/1.0'')]\<rparr>
      in (req,
          case reply of
            Inl e \<Rightarrow> Inl e
          | Inr r \<Rightarrow> (case json r of
                       None \<Rightarrow> Inl JSONDecodeError
                     | Some doc \<Rightarrow> Inr doc)))"

definition search_places :: "string \<Rightarrow> upstream \<Rightarrow> handled" where
  "search_places q reply =
     (let req = \<lparr>url = ''https://nominatim.openstreetmap.org/search?format=json&q=''
                        @ q @ ''&limit=5'',
                 params = [],
                 headers = [(''User-Agent'', ''WeatherApp/1.0'')]\<rparr>
      in (req,
          case reply of
            Inl e \<Rightarrow> Inl e
          | Inr r \<Rightarrow> (case json r of
                       None \<Rightarrow> Inl JSONDecodeError
                     | Some doc \<Rightarrow> Inr doc)))"

subsection \<open>What the framework sends for a handler's outcome\<close>

text \<open>
  The three routes are declared with \<open>@app.get(path)\<close> and no \<open>status_code\<close>, and the
  module installs no exception handler: a value returned by a handler is written as a
  JSON body and sent with status 200, and an exception that leaves a handler is
  answered with the framework's plain 500 reply. Writing the body fails, with the same
  500 reply, when the value holds a float that JSON cannot express.
\<close>

fun finite_float :: "decoded_float \<Rightarrow> bool" where
  "finite_float (Finite x) = True"
| "finite_float PosInf = False"
| "finite_float NegInf = False"
| "finite_float NaN = False"

fun serialisable :: "json_value \<Rightarrow> bool" where
  "serialisable (JFloat f) = finite_float f"
| "serialisable (JArr xs) = list_all serialisable xs"
| "serialisable (JObj kvs) = list_all (\<lambda>kv. serialisable (snd kv)) kvs"
| "serialisable JNull = True"
| "serialisable (JBool b) = True"
| "serialisable (JInt n) = True"
| "serialisable (JStr t) = True"

datatype payload = JSONBody json_value | PlainBody string

record http_response =
  status :: int
  content :: payload

definition respond :: "error + json_value \<Rightarrow> http_response" where
  "respond out =
     (case out of
        Inr v \<Rightarrow>
          if serialisable v
          then \<lparr>status = 200, content = JSONBody v\<rparr>
          else \<lparr>status = 500, content = PlainBody ''Internal Server Error''\<rparr>
      | Inl e \<Rightarrow> \<lparr>status = 500, content = PlainBody ''Internal Server Error''\<rparr>)"

text \<open>The success class of HTTP status codes (2xx), which is how the specification's
  words "success status" read; the handler itself compares with 200 only.\<close>

definition http_success_status :: "int \<Rightarrow> bool" where
  "http_success_status s = (200 \<le> s \<and> s < 300)"

subsection \<open>Reading the query of a URL\<close>

text \<open>
  The handlers of the geocoding routes write the query into the URL themselves. What
  such a URL means to the server that receives it is the usual reading of a URL: the
  query is the text after the first \<open>?\<close> up to the first \<open>#\<close> (the fragment is not
  sent), its parameters are separated by \<open>&\<close>, and a parameter is split into name and
  value at its first \<open>=\<close>. \<open>split_on\<close> is Python's \<open>str.split\<close> with a separator.
\<close>

fun split_on :: "char \<Rightarrow> string \<Rightarrow> string list" where
  "split_on c [] = [[]]"
| "split_on c (x # xs) =
     (if x = c then [] # split_on c xs
      else (case split_on c xs of
              [] \<Rightarrow> [[x]]
            | w # ws \<Rightarrow> (x # w) # ws))"

definition key_value :: "string \<Rightarrow> string \<times> string" where
  "key_value s =
     (takeWhile (\<lambda>c. c \<noteq> CHR ''='') s, drop 1 (dropWhile (\<lambda>c. c \<noteq> CHR ''='') s))"

definition url_query :: "string \<Rightarrow> string" where
  "url_query u =
     takeWhile (\<lambda>c. c \<noteq> CHR ''#'') (drop 1 (dropWhile (\<lambda>c. c \<noteq> CHR ''?'') u))"

definition query_pairs :: "string \<Rightarrow> (string \<times> string) list" where
  "query_pairs u = map key_value (split_on CHR ''&'' (url_query u))"

subsection \<open>The application, its routes and its middleware\<close>

text \<open>
  \<open>app = FastAPI()\<close>, then one \<open>app.add_middleware(CORSMiddleware, ...)\<close>, then the three
  \<open>@app.get(path)\<close> decorators. The application is the list of its middleware (here the
  keyword arguments of each \<open>CORSMiddleware\<close>) and the list of its routes, built by
  these calls in the module's order. \<open>FastAPI()\<close> itself registers the four
  documentation routes; \<open>add_middleware\<close> inserts in front; \<open>@app.get\<close> appends a route
  for the method GET.
\<close>

record cors_options =
  allow_origins :: "string list"
  allow_credentials :: bool
  allow_methods :: "string list"
  allow_headers :: "string list"

record route =
  route_path :: string
  route_methods :: "string set"

record application =
  user_middleware :: "cors_options list"
  routes :: "route list"

definition FastAPI :: application where
  "FastAPI =
     \<lparr>user_middleware = [],
      routes =
        [\<lparr>route_path = ''/openapi.json'', route_methods = {''GET'', ''HEAD''}\<rparr>,
         \<lparr>route_path = ''/docs'', route_methods = {''GET'', ''HEAD''}\<rparr>,
         \<lparr>route_path = ''/docs/oauth2-redirect'', route_methods = {''GET'', ''HEAD''}\<rparr>,
         \<lparr>route_path = ''/redoc'', route_methods = {''GET'', ''HEAD''}\<rparr>]\<rparr>"

definition add_middleware :: "cors_options \<Rightarrow> application \<Rightarrow> application" where
  "add_middleware m a = a\<lparr>user_middleware := m # user_middleware a\<rparr>"

definition app_get :: "string \<Rightarrow> application \<Rightarrow> application" where
  "app_get p a = a\<lparr>routes := routes a @ [\<lparr>route_path = p, route_methods = {''GET''}\<rparr>]\<rparr>"

definition app :: application where
  "app =
     app_get ''/api/search''
       (app_get ''/api/reverse''
          (app_get ''/weather''
             (add_middleware
                \<lparr>allow_origins = [''*''],
                 allow_credentials = True,
                 allow_methods = [''*''],
                 allow_headers = [''*'']\<rparr>
                FastAPI)))"

subsection \<open>What the CORS middleware does with a request\<close>

text \<open>
  The middleware class is the framework's. Its constructor derives from the options
  the sets it works with, and its call decides by the request's headers alone: a
  request without \<open>Origin\<close> goes to the wrapped application untouched; an \<open>OPTIONS\<close>
  request with \<open>Access-Control-Request-Method\<close> is a preflight and is answered by the
  middleware itself; any other request goes to the wrapped application and the
  middleware adds headers to the answer. Header names are written in lower case, as
  they are on the wire; a header list is read by the first entry of a name, and the
  headers a response object adds for its own body (length and type) are left out.
  Options that the module does not pass keep their defaults (no origin pattern, no
  exposed headers, a maximal age of 600).
\<close>

record http_request =
  req_method :: string
  req_path :: string
  req_headers :: "(string \<times> string) list"

record asgi_response =
  resp_status :: int
  resp_headers :: "(string \<times> string) list"
  resp_body :: string

definition ALL_METHODS :: "string list" where
  "ALL_METHODS = [''DELETE'', ''GET'', ''HEAD'', ''OPTIONS'', ''PATCH'', ''POST'', ''PUT'']"

definition SAFELISTED_HEADERS :: "string list" where
  "SAFELISTED_HEADERS = [''Accept'', ''Accept-Language'', ''Content-Language'', ''Content-Type'']"

text \<open>\<open>str.lower\<close> and \<open>str.strip\<close>, on ASCII text.\<close>

definition lower_char :: "char \<Rightarrow> char" where
  "lower_char c =
     (if 65 \<le> (of_char c :: nat) \<and> (of_char c :: nat) \<le> 90
      then char_of ((of_char c :: nat) + 32) else c)"

definition lower :: "string \<Rightarrow> string" where
  "lower s = map lower_char s"

definition is_space :: "char \<Rightarrow> bool" where
  "is_space c = ((of_char c :: nat) = 32
                 \<or> (9 \<le> (of_char c :: nat) \<and> (of_char c :: nat) \<le> 13)
                 \<or> (28 \<le> (of_char c :: nat) \<and> (of_char c :: nat) \<le> 31))"

definition strip :: "string \<Rightarrow> string" where
  "strip s = rev (dropWhile is_space (rev (dropWhile is_space s)))"

text \<open>What the constructor computes from the options.\<close>

definition cors_methods :: "cors_options \<Rightarrow> string list" where
  "cors_methods opts =
     (if ''*'' \<in> set (allow_methods opts) then ALL_METHODS else allow_methods opts)"

definition allow_all_origins :: "cors_options \<Rightarrow> bool" where
  "allow_all_origins opts = (''*'' \<in> set (allow_origins opts))"

definition allow_all_headers :: "cors_options \<Rightarrow> bool" where
  "allow_all_headers opts = (''*'' \<in> set (allow_headers opts))"

definition preflight_explicit_allow_origin :: "cors_options \<Rightarrow> bool" where
  "preflight_explicit_allow_origin opts = (\<not> allow_all_origins opts \<or> allow_credentials opts)"

definition sorted_headers :: "cors_options \<Rightarrow> string list" where
  "sorted_headers opts = sort (remdups (SAFELISTED_HEADERS @ allow_headers opts))"

definition cors_headers :: "cors_options \<Rightarrow> string list" where
  "cors_headers opts = map lower (sorted_headers opts)"

definition simple_headers :: "cors_options \<Rightarrow> (string \<times> string) list" where
  "simple_headers opts =
     (if allow_all_origins opts then [(''access-control-allow-origin'', ''*'')] else [])
     @ (if allow_credentials opts then [(''access-control-allow-credentials'', ''true'')] else [])"

definition preflight_headers :: "cors_options \<Rightarrow> (string \<times> string) list" where
  "preflight_headers opts =
     (if preflight_explicit_allow_origin opts
      then [(''vary'', ''Origin'')]
      else [(''access-control-allow-origin'', ''*'')])
     @ [(''access-control-allow-methods'', join '', '' (cors_methods opts)),
        (''access-control-max-age'', ''600'')]
     @ (if sorted_headers opts \<noteq> [] \<and> \<not> allow_all_headers opts
        then [(''access-control-allow-headers'', join '', '' (sorted_headers opts))]
        else [])
     @ (if allow_credentials opts then [(''access-control-allow-credentials'', ''true'')] else [])"

definition is_allowed_origin :: "cors_options \<Rightarrow> string \<Rightarrow> bool" where
  "is_allowed_origin opts origin =
     (if allow_all_origins opts then True else origin \<in> set (allow_origins opts))"

text \<open>
  The answer to a preflight: the requested origin, method and headers are each tested,
  a failed test adds its name to the failures, and any failure makes the answer a 400.
\<close>

definition preflight_response ::
  "cors_options \<Rightarrow> string \<Rightarrow> string \<Rightarrow> string option \<Rightarrow> asgi_response" where
  "preflight_response opts requested_origin requested_method requested_headers =
     (let headers0 = preflight_headers opts;
          headers1 =
            (if is_allowed_origin opts requested_origin \<and> preflight_explicit_allow_origin opts
             then AList.update ''access-control-allow-origin'' requested_origin headers0
             else headers0);
          failures0 = (if is_allowed_origin opts requested_origin then [] else [''origin'']);
          failures1 =
            (if requested_method \<in> set (cors_methods opts) then failures0
             else failures0 @ [''method'']);
          headers2 =
            (case requested_headers of
               None \<Rightarrow> headers1
             | Some hs \<Rightarrow>
                 if allow_all_headers opts
                 then AList.update ''access-control-allow-headers'' hs headers1
                 else headers1);
          failures2 =
            (case requested_headers of
               None \<Rightarrow> failures1
             | Some hs \<Rightarrow>
                 if allow_all_headers opts then failures1
                 else if list_ex (\<lambda>h. strip h \<notin> set (cors_headers opts))
                           (map lower (split_on CHR '','' hs))
                      then failures1 @ [''headers'']
                      else failures1)
      in if failures2 \<noteq> []
         then \<lparr>resp_status = 400, resp_headers = headers2,
               resp_body = ''Disallowed CORS '' @ join '', '' failures2\<rparr>
         else \<lparr>resp_status = 200, resp_headers = headers2, resp_body = ''OK''\<rparr>)"

text \<open>The headers added to the answer of the wrapped application.\<close>

definition add_vary_header :: "string \<Rightarrow> (string \<times> string) list \<Rightarrow> (string \<times> string) list" where
  "add_vary_header vary hs =
     (case map_of hs ''vary'' of
        None \<Rightarrow> AList.update ''vary'' vary hs
      | Some existing \<Rightarrow> AList.update ''vary'' (existing @ '', '' @ vary) hs)"

definition allow_explicit_origin :: "string \<Rightarrow> (string \<times> string) list \<Rightarrow> (string \<times> string) list" where
  "allow_explicit_origin origin hs =
     add_vary_header ''Origin'' (AList.update ''access-control-allow-origin'' origin hs)"

definition cors_send ::
  "cors_options \<Rightarrow> (string \<times> string) list \<Rightarrow> string \<Rightarrow> asgi_response \<Rightarrow> asgi_response" where
  "cors_send opts request_headers origin message =
     (let headers0 = fold (\<lambda>kv. AList.update (fst kv) (snd kv)) (simple_headers opts)
                       (resp_headers message);
          has_cookie = (map_of request_headers ''cookie'' \<noteq> None)
      in if allow_all_origins opts \<and> has_cookie
         then message\<lparr>resp_headers := allow_explicit_origin origin headers0\<rparr>
         else if \<not> allow_all_origins opts \<and> is_allowed_origin opts origin
         then message\<lparr>resp_headers := allow_explicit_origin origin headers0\<rparr>
         else message\<lparr>resp_headers := headers0\<rparr>)"

text \<open>
  The call of the middleware on a request, \<open>inner\<close> being the answer that the
  application it wraps gives to the same request.
\<close>

definition cors_call :: "cors_options \<Rightarrow> http_request \<Rightarrow> asgi_response \<Rightarrow> asgi_response" where
  "cors_call opts req inner =
     (case map_of (req_headers req) ''origin'' of
        None \<Rightarrow> inner
      | Some origin \<Rightarrow>
          (case map_of (req_headers req) ''access-control-request-method'' of
             None \<Rightarrow> cors_send opts (req_headers req) origin inner
           | Some requested_method \<Rightarrow>
               if req_method req = ''OPTIONS''
               then preflight_response opts origin requested_method
                      (map_of (req_headers req) ''access-control-request-headers'')
               else cors_send opts (req_headers req) origin inner))"

text \<open>
  The application answers a request through its middleware stack: the first entry of
  \<open>user_middleware\<close> is outermost, the router is innermost, and \<open>routed\<close> is the router's
  answer to the request.
\<close>

definition serve :: "application \<Rightarrow> http_request \<Rightarrow> asgi_response \<Rightarrow> asgi_response" where
  "serve a req routed = foldr (\<lambda>opts inner. cors_call opts req inner) (user_middleware a) routed"

section \<open>The weather relay's replies\<close>

text \<open>
  C1, as the code has it: whatever the arguments, for a reply whose status is not 200
  the handler returns the envelope \<open>{error: true, reason: r.text}\<close>; for a reply whose
  status is 200 it returns the decoded document itself when the body decodes, and
  raises otherwise. The test is against 200, not against the 2xx class.
\<close>

theorem get_weather_envelope_unless_200:
  "(status_code r \<noteq> 200 \<longrightarrow>
      snd (get_weather lat lon tz (Inr r))
        = Inr (JObj [(''error'', JBool True), (''reason'', JStr (body_text r))]))
   \<and> (status_code r = 200 \<longrightarrow>
      snd (get_weather lat lon tz (Inr r))
        = (case json r of None \<Rightarrow> Inl JSONDecodeError | Some doc \<Rightarrow> Inr doc))"
  by (simp add: get_weather_def)

theorem get_weather_envelope_unless_200_witness:
  "status_code \<lparr>status_code = 404, body_text = ''Not Found'', json = None\<rparr> \<noteq> 200
   \<and> snd (get_weather 52.52 13.405 ''auto''
            (Inr \<lparr>status_code = 404, body_text = ''Not Found'', json = None\<rparr>))
       = Inr (JObj [(''error'', JBool True), (''reason'', JStr ''Not Found'')])
   \<and> status_code \<lparr>status_code = 200, body_text = ''[38]'',
                   json = Some (JArr [JInt 38])\<rparr> = 200
   \<and> snd (get_weather 52.52 13.405 ''auto''
            (Inr \<lparr>status_code = 200, body_text = ''[38]'',
                  json = Some (JArr [JInt 38])\<rparr>))
       = Inr (JArr [JInt 38])"
  using get_weather_envelope_unless_200
          [of "\<lparr>status_code = 404, body_text = ''Not Found'', json = None\<rparr>"
              "52.52" "13.405" "''auto''"]
        get_weather_envelope_unless_200
          [of "\<lparr>status_code = 200, body_text = ''[38]'',
                json = Some (JArr [JInt 38])\<rparr>"
              "52.52" "13.405" "''auto''"]
  by simp

text \<open>
  C1 as stated fails at a success status other than 200: a reply 201 with the JSON body
  \<open>{}\<close> is answered with the error envelope, not with the document.
\<close>

theorem get_weather_status_201_counterexample:
  "http_success_status 201
   \<and> snd (get_weather 52.52 13.405 ''auto''
            (Inr \<lparr>status_code = 201, body_text = ''{}'', json = Some (JObj [])\<rparr>))
       = Inr (JObj [(''error'', JBool True), (''reason'', JStr ''{}'')])
   \<and> snd (get_weather 52.52 13.405 ''auto''
            (Inr \<lparr>status_code = 201, body_text = ''{}'', json = Some (JObj [])\<rparr>))
       \<noteq> Inr (JObj [])"
  by (simp add: get_weather_def http_success_status_def)

text \<open>
  C2: when the forecast service answers with status 500 and any body \<open>b\<close>, the relay's
  own reply has status 200 and the body \<open>{error: true, reason: b}\<close>: the error is reported
  in-band.
\<close>

theorem get_weather_upstream_500_in_band:
  "respond (snd (get_weather lat lon tz (Inr \<lparr>status_code = 500, body_text = b, json = j\<rparr>)))
     = \<lparr>status = 200,
        content = JSONBody (JObj [(''error'', JBool True), (''reason'', JStr b)])\<rparr>"
  by (simp add: get_weather_def respond_def)

text \<open>
  C3, as the code has it: for an upstream response, the handler returns a value exactly
  when the status is not 200 or the body decodes as JSON; for a status 200 whose body
  is not JSON the decoding error leaves the handler, and the caller gets the
  framework's 500 reply.
\<close>

theorem get_weather_returns_iff:
  "(\<not> isl (snd (get_weather lat lon tz (Inr r)))) = (status_code r \<noteq> 200 \<or> json r \<noteq> None)
   \<and> (status_code r = 200 \<and> json r = None \<longrightarrow>
        snd (get_weather lat lon tz (Inr r)) = Inl JSONDecodeError
        \<and> status (respond (snd (get_weather lat lon tz (Inr r)))) = 500)"
  by (auto simp: get_weather_def respond_def split: option.splits)

theorem get_weather_returns_iff_witness:
  "\<not> isl (snd (get_weather 52.52 13.405 ''auto''
              (Inr \<lparr>status_code = 503, body_text = ''Service Unavailable'', json = None\<rparr>)))
   \<and> \<not> isl (snd (get_weather 52.52 13.405 ''auto''
              (Inr \<lparr>status_code = 200, body_text = ''[38]'', json = Some (JArr [JInt 38])\<rparr>)))
   \<and> snd (get_weather 52.52 13.405 ''auto''
            (Inr \<lparr>status_code = 200, body_text = ''upstream restarting'', json = None\<rparr>))
       = Inl JSONDecodeError"
  using get_weather_returns_iff
          [of "52.52" "13.405" "''auto''"
              "\<lparr>status_code = 503, body_text = ''Service Unavailable'', json = None\<rparr>"]
        get_weather_returns_iff
          [of "52.52" "13.405" "''auto''"
              "\<lparr>status_code = 200, body_text = ''[38]'', json = Some (JArr [JInt 38])\<rparr>"]
        get_weather_returns_iff
          [of "52.52" "13.405" "''auto''"
              "\<lparr>status_code = 200, body_text = ''upstream restarting'', json = None\<rparr>"]
  by simp

text \<open>
  C3 as stated fails for a status 200 whose body is not JSON: \<open>r.json()\<close> raises, the
  handler returns nothing, and the relay answers 500.
\<close>

theorem get_weather_undecodable_200_counterexample:
  "snd (get_weather 52.52 13.405 ''auto''
         (Inr \<lparr>status_code = 200, body_text = ''upstream restarting'', json = None\<rparr>))
     = Inl JSONDecodeError
   \<and> respond (snd (get_weather 52.52 13.405 ''auto''
         (Inr \<lparr>status_code = 200, body_text = ''upstream restarting'', json = None\<rparr>)))
     = \<lparr>status = 500, content = PlainBody ''Internal Server Error''\<rparr>"
  by (simp add: get_weather_def respond_def)

section \<open>The outbound requests\<close>

text \<open>
  C4: for every \<open>lat\<close>, \<open>lon\<close> and \<open>tz\<close>, and whatever the upstream then answers, the
  request that the weather route sends goes to the fixed forecast URL with
  \<open>latitude = lat\<close>, \<open>longitude = lon\<close>, the three fixed comma-separated field lists,
  \<open>forecast_days = 7\<close> and \<open>timezone = tz\<close>, where \<open>tz\<close> is \<open>auto\<close> when the caller gave
  none.
\<close>

theorem weather_route_outbound_request:
  "fst (weather_route lat lon (Some tz) reply)
     = \<lparr>url = ''https://api.open-meteo.com/v1/forecast'',
        params =
          [(''latitude'', PFloat lat),
           (''longitude'', PFloat lon),
           (''current'', PStr ''temperature_2m,apparent_temperature,relative_humidity_2m,is_day,precipitation,wind_speed_10m,wind_direction_10m,weather_code,surface_pressure,cloud_cover''),
           (''hourly'', PStr ''temperature_2m,relative_humidity_2m,precipitation,cloud_cover,wind_speed_10m''),
           (''daily'', PStr ''temperature_2m_max,temperature_2m_min,uv_index_max,sunrise,sunset,precipitation_sum''),
           (''forecast_days'', PInt 7),
           (''timezone'', PStr tz)],
        headers = []\<rparr>
   \<and> map_of (params (fst (weather_route lat lon None reply))) ''timezone'' = Some (PStr ''auto'')
   \<and> fst (weather_route lat lon None reply) = fst (weather_route lat lon (Some ''auto'') reply)"
  by (simp add: weather_route_def get_weather_def weather_params_def)

subsection \<open>Facts about reading a query\<close>

lemma split_on_nonempty: "split_on c s \<noteq> []"
  by (induction s) (auto split: list.splits)

lemma split_on_append: "split_on c (a @ c # b) = split_on c a @ split_on c b"
  by (induction a) (auto split: list.splits simp: split_on_nonempty)

lemma url_query_search:
  "CHR ''#'' \<notin> set q \<Longrightarrow>
   url_query (url (fst (search_places q reply))) = ''format=json&q='' @ q @ ''&limit=5''"
  by (auto simp: search_places_def url_query_def takeWhile_append2 takeWhile_eq_all_conv)

lemma query_pairs_search:
  assumes "CHR ''#'' \<notin> set q"
  shows "query_pairs (url (fst (search_places q reply)))
           = (''format'', ''json'')
               # map key_value (split_on CHR ''&'' (''q='' @ q)) @ [(''limit'', ''5'')]"
proof -
  have parts: "''format=json&q='' @ q @ ''&limit=5''
                 = ''format=json'' @ CHR ''&'' # ((''q='' @ q) @ CHR ''&'' # ''limit=5'')"
    by simp
  show ?thesis
    unfolding query_pairs_def url_query_search [OF assms] parts split_on_append
    by (simp add: key_value_def)
qed

subsection \<open>The search relay\<close>

text \<open>
  C5, as the code has it: for every \<open>q\<close> the URL that the search handler builds is the
  fixed search URL, \<open>q\<close>, and the suffix \<open>&limit=5\<close>; when \<open>q\<close> has no \<open>#\<close> the
  upstream reads that suffix as the last parameter, \<open>limit = 5\<close>. The handler returns
  the decoded array as it came: it has the number of elements that the upstream sent,
  and the handler does not bound it.
\<close>

theorem search_places_limit_suffix_and_passthrough:
  "url (fst (search_places q reply))
     = ''https://nominatim.openstreetmap.org/search?format=json&q='' @ q @ ''&limit=5''
   \<and> (CHR ''#'' \<notin> set q \<longrightarrow>
        last (query_pairs (url (fst (search_places q reply)))) = (''limit'', ''5''))
   \<and> (json r = Some (JArr xs) \<longrightarrow> snd (search_places q (Inr r)) = Inr (JArr xs))"
proof (intro conjI impI)
  show "url (fst (search_places q reply))
          = ''https://nominatim.openstreetmap.org/search?format=json&q='' @ q @ ''&limit=5''"
    by (simp add: search_places_def)
next
  assume "CHR ''#'' \<notin> set q"
  then show "last (query_pairs (url (fst (search_places q reply)))) = (''limit'', ''5'')"
    by (simp add: query_pairs_search)
next
  assume "json r = Some (JArr xs)"
  then show "snd (search_places q (Inr r)) = Inr (JArr xs)"
    by (simp add: search_places_def)
qed

theorem search_places_limit_suffix_and_passthrough_witness:
  "CHR ''#'' \<notin> set ''Berlin''
   \<and> last (query_pairs (url (fst (search_places ''Berlin'' (Inl RequestError))))) = (''limit'', ''5'')
   \<and> snd (search_places ''Berlin''
            (Inr \<lparr>status_code = 200, body_text = ''[1, 2]'',
                  json = Some (JArr [JInt 1, JInt 2])\<rparr>))
       = Inr (JArr [JInt 1, JInt 2])"
proof -
  note inst = search_places_limit_suffix_and_passthrough
          [of "''Berlin''" "Inl RequestError"
              "\<lparr>status_code = 200, body_text = ''[1, 2]'',
                json = Some (JArr [JInt 1, JInt 2])\<rparr>"
              "[JInt 1, JInt 2]"]
  have no_hash: "CHR ''#'' \<notin> set ''Berlin''"
    by simp
  from inst no_hash
  have "last (query_pairs (url (fst (search_places ''Berlin'' (Inl RequestError)))))
          = (''limit'', ''5'')"
    by blast
  moreover from inst
  have "snd (search_places ''Berlin''
              (Inr \<lparr>status_code = 200, body_text = ''[1, 2]'',
                    json = Some (JArr [JInt 1, JInt 2])\<rparr>))
          = Inr (JArr [JInt 1, JInt 2])"
    by simp
  ultimately show ?thesis
    using no_hash by blast
qed

text \<open>
  C5 as stated fails twice. An upstream array of six elements is returned with its six
  elements. And for \<open>q = Berlin#\<close> the suffix \<open>&limit=5\<close> falls into the fragment of
  the URL: the query that reaches the upstream has no \<open>limit\<close> parameter.
\<close>

theorem search_places_six_results_counterexample:
  "snd (search_places ''Berlin''
         (Inr \<lparr>status_code = 200, body_text = ''[1, 2, 3, 4, 5, 6]'',
               json = Some (JArr [JInt 1, JInt 2, JInt 3, JInt 4, JInt 5, JInt 6])\<rparr>))
     = Inr (JArr [JInt 1, JInt 2, JInt 3, JInt 4, JInt 5, JInt 6])
   \<and> \<not> length [JInt 1, JInt 2, JInt 3, JInt 4, JInt 5, JInt 6] \<le> 5
   \<and> query_pairs (url (fst (search_places ''Berlin#'' (Inl RequestError))))
       = [(''format'', ''json''), (''q'', ''Berlin'')]"
  by (simp add: search_places_def query_pairs_def url_query_def key_value_def)

subsection \<open>Both geocoding relays\<close>

text \<open>
  C6: for every input, the reverse-geocoding and the search handler send the header
  \<open>User-Agent: WeatherApp/1.0\<close> and no other on their upstream request, and when the
  upstream body decodes to a JSON document, the value that the handler returns is that
  document, unchanged.
\<close>

theorem geocoding_user_agent_and_passthrough:
  "headers (fst (reverse_geocode float_str lat lon reply)) = [(''User-Agent'', ''WeatherApp/1.0'')]
   \<and> headers (fst (search_places q reply)) = [(''User-Agent'', ''WeatherApp/1.0'')]
   \<and> (json r = Some doc \<longrightarrow>
        snd (reverse_geocode float_str lat lon (Inr r)) = Inr doc
        \<and> snd (search_places q (Inr r)) = Inr doc)"
  by (simp add: reverse_geocode_def search_places_def)

theorem geocoding_user_agent_and_passthrough_witness:
  "json \<lparr>status_code = 200, body_text = ''[[52.5, 13.4], [1, true, null]]'',
         json = Some (JArr [JArr [JFloat (Finite 52.5), JFloat (Finite 13.4)],
                            JArr [JInt 1, JBool True, JNull]])\<rparr>
     = Some (JArr [JArr [JFloat (Finite 52.5), JFloat (Finite 13.4)],
                   JArr [JInt 1, JBool True, JNull]])
   \<and> snd (reverse_geocode (\<lambda>x. ''52.52'') 52.52 52.52
            (Inr \<lparr>status_code = 200, body_text = ''[[52.5, 13.4], [1, true, null]]'',
                  json = Some (JArr [JArr [JFloat (Finite 52.5), JFloat (Finite 13.4)],
                                     JArr [JInt 1, JBool True, JNull]])\<rparr>))
       = Inr (JArr [JArr [JFloat (Finite 52.5), JFloat (Finite 13.4)],
                    JArr [JInt 1, JBool True, JNull]])
   \<and> snd (search_places ''Berlin''
            (Inr \<lparr>status_code = 200, body_text = ''[[52.5, 13.4], [1, true, null]]'',
                  json = Some (JArr [JArr [JFloat (Finite 52.5), JFloat (Finite 13.4)],
                                     JArr [JInt 1, JBool True, JNull]])\<rparr>))
       = Inr (JArr [JArr [JFloat (Finite 52.5), JFloat (Finite 13.4)],
                    JArr [JInt 1, JBool True, JNull]])
   \<and> headers (fst (search_places ''Berlin'' (Inl RequestError)))
       = [(''User-Agent'', ''WeatherApp/1.0'')]"
  using geocoding_user_agent_and_passthrough
          [of "\<lambda>x. ''52.52''" "52.52" "52.52" "Inl RequestError" "''Berlin''"
              "\<lparr>status_code = 200, body_text = ''[[52.5, 13.4], [1, true, null]]'',
                json = Some (JArr [JArr [JFloat (Finite 52.5), JFloat (Finite 13.4)],
                                   JArr [JInt 1, JBool True, JNull]])\<rparr>"
              "JArr [JArr [JFloat (Finite 52.5), JFloat (Finite 13.4)],
                     JArr [JInt 1, JBool True, JNull]]"]
  by simp

text \<open>
  C7: the reverse-geocoding and the search handler intercept no failure. When the
  client call fails, its error leaves the handler; when a response arrives whose body
  is not a JSON text (whatever its status), the decoding error leaves the handler. In
  both cases the handler returns no value and the caller gets the framework's 500
  reply.
\<close>

theorem geocoding_failures_propagate:
  "snd (reverse_geocode float_str lat lon (Inl e)) = Inl e
   \<and> snd (search_places q (Inl e)) = Inl e
   \<and> (json r = None \<longrightarrow>
        snd (reverse_geocode float_str lat lon (Inr r)) = Inl JSONDecodeError
        \<and> snd (search_places q (Inr r)) = Inl JSONDecodeError)
   \<and> status (respond (Inl e)) = 500"
  by (simp add: reverse_geocode_def search_places_def respond_def)

theorem geocoding_failures_propagate_witness:
  "json \<lparr>status_code = 502, body_text = ''Bad Gateway'', json = None\<rparr> = None
   \<and> snd (reverse_geocode (\<lambda>x. ''52.52'') 52.52 52.52
            (Inr \<lparr>status_code = 502, body_text = ''Bad Gateway'', json = None\<rparr>))
       = Inl JSONDecodeError
   \<and> snd (search_places ''Berlin''
            (Inr \<lparr>status_code = 502, body_text = ''Bad Gateway'', json = None\<rparr>))
       = Inl JSONDecodeError
   \<and> snd (search_places ''Berlin'' (Inl RequestError)) = Inl RequestError"
  using geocoding_failures_propagate
          [of "\<lambda>x. ''52.52''" "52.52" "52.52" RequestError "''Berlin''"
              "\<lparr>status_code = 502, body_text = ''Bad Gateway'', json = None\<rparr>"]
  by simp

section \<open>The cross-origin policy\<close>

lemma user_middleware_app:
  "user_middleware app
     = [\<lparr>allow_origins = [''*''], allow_credentials = True,
         allow_methods = [''*''], allow_headers = [''*'']\<rparr>]"
  by (simp add: app_def app_get_def add_middleware_def FastAPI_def)

lemma serve_app:
  "serve app req routed
     = cors_call \<lparr>allow_origins = [''*''], allow_credentials = True,
                  allow_methods = [''*''], allow_headers = [''*'']\<rparr> req routed"
  by (simp add: serve_def user_middleware_app)

lemma map_of_update:
  "map_of (AList.update k v al) k' = (if k' = k then Some v else map_of al k')"
  by (simp add: update_conv')

text \<open>
  C8, as the code has it: the application has exactly one middleware, the CORS
  middleware with the wildcard for origins, for methods and for headers and with
  credentials allowed, and its routes are the framework's four documentation routes
  followed by \<open>/weather\<close>, \<open>/api/reverse\<close> and \<open>/api/search\<close>. The middleware treats a
  request without looking at its path, so alike on every route. A preflight from any
  origin, asking for any of the methods DELETE, GET, HEAD, OPTIONS, PATCH, POST and
  PUT (what the wildcard for methods stands for) and for any headers, is answered
  with 200, the origin itself, the headers asked for, and credentials allowed. The
  answer to any other request that names an origin carries the allowed origin (\<open>*\<close>, or
  the origin itself when the request has a cookie) and credentials allowed.
\<close>

theorem cors_policy_on_every_route:
  "user_middleware app
     = [\<lparr>allow_origins = [''*''], allow_credentials = True,
         allow_methods = [''*''], allow_headers = [''*'']\<rparr>]
   \<and> map route_path (routes app)
       = [''/openapi.json'', ''/docs'', ''/docs/oauth2-redirect'', ''/redoc'',
          ''/weather'', ''/api/reverse'', ''/api/search'']
   \<and> (\<forall>rt \<in> set (routes app).
         serve app (req\<lparr>req_path := route_path rt\<rparr>) routed = serve app req routed)
   \<and> (map_of (req_headers req) ''origin'' = Some origin
        \<and> req_method req = ''OPTIONS''
        \<and> map_of (req_headers req) ''access-control-request-method'' = Some m
        \<and> m \<in> set ALL_METHODS
        \<longrightarrow> resp_status (serve app req routed) = 200
            \<and> map_of (resp_headers (serve app req routed)) ''access-control-allow-origin''
                = Some origin
            \<and> map_of (resp_headers (serve app req routed)) ''access-control-allow-credentials''
                = Some ''true''
            \<and> map_of (resp_headers (serve app req routed)) ''access-control-allow-methods''
                = Some ''DELETE, GET, HEAD, OPTIONS, PATCH, POST, PUT''
            \<and> (map_of (req_headers req) ''access-control-request-headers'' = Some hs
                 \<longrightarrow> map_of (resp_headers (serve app req routed)) ''access-control-allow-headers''
                       = Some hs))
   \<and> (map_of (req_headers req) ''origin'' = Some origin
        \<and> (req_method req \<noteq> ''OPTIONS''
            \<or> map_of (req_headers req) ''access-control-request-method'' = None)
        \<longrightarrow> resp_status (serve app req routed) = resp_status routed
            \<and> resp_body (serve app req routed) = resp_body routed
            \<and> map_of (resp_headers (serve app req routed)) ''access-control-allow-credentials''
                = Some ''true''
            \<and> map_of (resp_headers (serve app req routed)) ''access-control-allow-origin''
                = Some (if map_of (req_headers req) ''cookie'' = None then ''*'' else origin))"
proof (intro conjI ballI impI)
  show "user_middleware app
          = [\<lparr>allow_origins = [''*''], allow_credentials = True,
              allow_methods = [''*''], allow_headers = [''*'']\<rparr>]"
    by (rule user_middleware_app)
next
  show "map route_path (routes app)
          = [''/openapi.json'', ''/docs'', ''/docs/oauth2-redirect'', ''/redoc'',
             ''/weather'', ''/api/reverse'', ''/api/search'']"
    by (simp add: app_def app_get_def add_middleware_def FastAPI_def)
next
  fix rt
  show "serve app (req\<lparr>req_path := route_path rt\<rparr>) routed = serve app req routed"
    by (simp add: serve_app cors_call_def split: option.splits)
next
  assume pre: "map_of (req_headers req) ''origin'' = Some origin
        \<and> req_method req = ''OPTIONS''
        \<and> map_of (req_headers req) ''access-control-request-method'' = Some m
        \<and> m \<in> set ALL_METHODS"
  then have resp: "serve app req routed
      = preflight_response \<lparr>allow_origins = [''*''], allow_credentials = True,
                             allow_methods = [''*''], allow_headers = [''*'']\<rparr>
          origin m (map_of (req_headers req) ''access-control-request-headers'')"
    by (simp add: serve_app cors_call_def)
  from pre have m: "m \<in> set ALL_METHODS"
    by simp
  show "resp_status (serve app req routed) = 200"
    using m unfolding resp
    by (simp add: preflight_response_def Let_def is_allowed_origin_def allow_all_origins_def
          allow_all_headers_def cors_methods_def split: option.splits)
  show "map_of (resp_headers (serve app req routed)) ''access-control-allow-origin'' = Some origin"
    using m unfolding resp
    by (simp add: preflight_response_def Let_def is_allowed_origin_def allow_all_origins_def
          allow_all_headers_def preflight_explicit_allow_origin_def cors_methods_def
          map_of_update split: option.splits)
  show "map_of (resp_headers (serve app req routed)) ''access-control-allow-credentials''
          = Some ''true''"
    using m unfolding resp
    by (simp add: preflight_response_def Let_def is_allowed_origin_def allow_all_origins_def
          allow_all_headers_def preflight_explicit_allow_origin_def cors_methods_def
          preflight_headers_def map_of_update split: option.splits)
  show "map_of (resp_headers (serve app req routed)) ''access-control-allow-methods''
          = Some ''DELETE, GET, HEAD, OPTIONS, PATCH, POST, PUT''"
    using m unfolding resp
    by (simp add: preflight_response_def Let_def is_allowed_origin_def allow_all_origins_def
          allow_all_headers_def preflight_explicit_allow_origin_def cors_methods_def
          preflight_headers_def ALL_METHODS_def map_of_update split: option.splits)
  assume hs: "map_of (req_headers req) ''access-control-request-headers'' = Some hs"
  show "map_of (resp_headers (serve app req routed)) ''access-control-allow-headers'' = Some hs"
    using m hs unfolding resp
    by (simp add: preflight_response_def Let_def is_allowed_origin_def allow_all_origins_def
          allow_all_headers_def preflight_explicit_allow_origin_def cors_methods_def
          map_of_update)
next
  assume simple: "map_of (req_headers req) ''origin'' = Some origin
        \<and> (req_method req \<noteq> ''OPTIONS''
            \<or> map_of (req_headers req) ''access-control-request-method'' = None)"
  then have resp: "serve app req routed
      = cors_send \<lparr>allow_origins = [''*''], allow_credentials = True,
                    allow_methods = [''*''], allow_headers = [''*'']\<rparr>
          (req_headers req) origin routed"
    by (auto simp: serve_app cors_call_def split: option.splits)
  show "resp_status (serve app req routed) = resp_status routed"
    unfolding resp by (simp add: cors_send_def Let_def)
  show "resp_body (serve app req routed) = resp_body routed"
    unfolding resp by (simp add: cors_send_def Let_def)
  show "map_of (resp_headers (serve app req routed)) ''access-control-allow-credentials''
          = Some ''true''"
    unfolding resp
    by (simp add: cors_send_def Let_def allow_all_origins_def simple_headers_def
          allow_explicit_origin_def add_vary_header_def map_of_update split: option.splits)
  show "map_of (resp_headers (serve app req routed)) ''access-control-allow-origin''
          = Some (if map_of (req_headers req) ''cookie'' = None then ''*'' else origin)"
    unfolding resp
    by (simp add: cors_send_def Let_def allow_all_origins_def simple_headers_def
          allow_explicit_origin_def add_vary_header_def map_of_update split: option.splits)
qed

theorem cors_policy_on_every_route_witness:
  "resp_status (serve app
       \<lparr>req_method = ''OPTIONS'', req_path = ''/api/search'',
        req_headers = [(''origin'', ''https://client.example''),
                       (''access-control-request-method'', ''PUT''),
                       (''access-control-request-headers'', ''x-token'')]\<rparr>
       \<lparr>resp_status = 405, resp_headers = [], resp_body = ''Method Not Allowed''\<rparr>) = 200
   \<and> map_of (resp_headers (serve app
       \<lparr>req_method = ''OPTIONS'', req_path = ''/api/search'',
        req_headers = [(''origin'', ''https://client.example''),
                       (''access-control-request-method'', ''PUT''),
                       (''access-control-request-headers'', ''x-token'')]\<rparr>
       \<lparr>resp_status = 405, resp_headers = [], resp_body = ''Method Not Allowed''\<rparr>))
         ''access-control-allow-origin'' = Some ''https://client.example''
   \<and> map_of (resp_headers (serve app
       \<lparr>req_method = ''OPTIONS'', req_path = ''/api/search'',
        req_headers = [(''origin'', ''https://client.example''),
                       (''access-control-request-method'', ''PUT''),
                       (''access-control-request-headers'', ''x-token'')]\<rparr>
       \<lparr>resp_status = 405, resp_headers = [], resp_body = ''Method Not Allowed''\<rparr>))
         ''access-control-allow-headers'' = Some ''x-token''
   \<and> map_of (resp_headers (serve app
       \<lparr>req_method = ''GET'', req_path = ''/weather'',
        req_headers = [(''origin'', ''https://client.example'')]\<rparr>
       \<lparr>resp_status = 200, resp_headers = [(''content-type'', ''application/json'')],
        resp_body = ''{}''\<rparr>))
         ''access-control-allow-origin'' = Some ''*''"
proof -
  have pre: "map_of [(''origin'', ''https://client.example''),
                     (''access-control-request-method'', ''PUT''),
                     (''access-control-request-headers'', ''x-token'')] ''origin''
               = Some ''https://client.example''
             \<and> ''OPTIONS'' = ''OPTIONS''
             \<and> map_of [(''origin'', ''https://client.example''),
                        (''access-control-request-method'', ''PUT''),
                        (''access-control-request-headers'', ''x-token'')]
                  ''access-control-request-method'' = Some ''PUT''
             \<and> ''PUT'' \<in> set ALL_METHODS"
    by (simp add: ALL_METHODS_def)
  have hs: "map_of [(''origin'', ''https://client.example''),
                    (''access-control-request-method'', ''PUT''),
                    (''access-control-request-headers'', ''x-token'')]
              ''access-control-request-headers'' = Some ''x-token''"
    by simp
  note preflight = cors_policy_on_every_route
    [of "\<lparr>req_method = ''OPTIONS'', req_path = ''/api/search'',
          req_headers = [(''origin'', ''https://client.example''),
                         (''access-control-request-method'', ''PUT''),
                         (''access-control-request-headers'', ''x-token'')]\<rparr>"
        "\<lparr>resp_status = 405, resp_headers = [], resp_body = ''Method Not Allowed''\<rparr>"
        "''https://client.example''" "''PUT''" "''x-token''"]
  note simple = cors_policy_on_every_route
    [of "\<lparr>req_method = ''GET'', req_path = ''/weather'',
          req_headers = [(''origin'', ''https://client.example'')]\<rparr>"
        "\<lparr>resp_status = 200, resp_headers = [(''content-type'', ''application/json'')],
          resp_body = ''{}''\<rparr>"
        "''https://client.example''"]
  from preflight pre hs
  have a: "resp_status (serve app
       \<lparr>req_method = ''OPTIONS'', req_path = ''/api/search'',
        req_headers = [(''origin'', ''https://client.example''),
                       (''access-control-request-method'', ''PUT''),
                       (''access-control-request-headers'', ''x-token'')]\<rparr>
       \<lparr>resp_status = 405, resp_headers = [], resp_body = ''Method Not Allowed''\<rparr>) = 200"
    by simp
  from preflight pre hs
  have b: "map_of (resp_headers (serve app
       \<lparr>req_method = ''OPTIONS'', req_path = ''/api/search'',
        req_headers = [(''origin'', ''https://client.example''),
                       (''access-control-request-method'', ''PUT''),
                       (''access-control-request-headers'', ''x-token'')]\<rparr>
       \<lparr>resp_status = 405, resp_headers = [], resp_body = ''Method Not Allowed''\<rparr>))
         ''access-control-allow-origin'' = Some ''https://client.example''"
    by simp
  from preflight pre hs
  have c: "map_of (resp_headers (serve app
       \<lparr>req_method = ''OPTIONS'', req_path = ''/api/search'',
        req_headers = [(''origin'', ''https://client.example''),
                       (''access-control-request-method'', ''PUT''),
                       (''access-control-request-headers'', ''x-token'')]\<rparr>
       \<lparr>resp_status = 405, resp_headers = [], resp_body = ''Method Not Allowed''\<rparr>))
         ''access-control-allow-headers'' = Some ''x-token''"
    by simp
  from simple
  have d: "map_of (resp_headers (serve app
       \<lparr>req_method = ''GET'', req_path = ''/weather'',
        req_headers = [(''origin'', ''https://client.example'')]\<rparr>
       \<lparr>resp_status = 200, resp_headers = [(''content-type'', ''application/json'')],
        resp_body = ''{}''\<rparr>))
         ''access-control-allow-origin'' = Some ''*''"
    by simp
  from a b c d show ?thesis
    by blast
qed

text \<open>
  C8 as stated fails for a method outside the seven: a preflight on \<open>/weather\<close> that
  asks for \<open>PROPFIND\<close> is refused with 400.
\<close>

theorem cors_preflight_propfind_counterexample:
  "''PROPFIND'' \<notin> set ALL_METHODS
   \<and> serve app
       \<lparr>req_method = ''OPTIONS'', req_path = ''/weather'',
        req_headers = [(''origin'', ''https://client.example''),
                       (''access-control-request-method'', ''PROPFIND'')]\<rparr>
       \<lparr>resp_status = 405, resp_headers = [], resp_body = ''Method Not Allowed''\<rparr>
     = \<lparr>resp_status = 400,
        resp_headers = [(''vary'', ''Origin''),
                        (''access-control-allow-methods'',
                         ''DELETE, GET, HEAD, OPTIONS, PATCH, POST, PUT''),
                        (''access-control-max-age'', ''600''),
                        (''access-control-allow-credentials'', ''true''),
                        (''access-control-allow-origin'', ''https://client.example'')],
        resp_body = ''Disallowed CORS method''\<rparr>"
  by (simp add: serve_app cors_call_def preflight_response_def Let_def is_allowed_origin_def
        allow_all_origins_def allow_all_headers_def preflight_explicit_allow_origin_def
        cors_methods_def preflight_headers_def ALL_METHODS_def)

section \<open>Coordinates\<close>

text \<open>
  C9, as the code has it: the handlers put no range on \<open>lat\<close> and \<open>lon\<close>. For every pair
  of floats, inside or outside \<open>[-90,90]\<close> and \<open>[-180,180]\<close>, the weather handler sends
  \<open>latitude = lat\<close> and \<open>longitude = lon\<close> upstream as they are, and the reverse-geocoding
  handler writes both, formatted, into its URL.
\<close>

theorem coordinates_forwarded_unchecked:
  "map_of (params (fst (get_weather lat lon tz reply))) ''latitude'' = Some (PFloat lat)
   \<and> map_of (params (fst (get_weather lat lon tz reply))) ''longitude'' = Some (PFloat lon)
   \<and> url (fst (reverse_geocode float_str lat lon reply))
       = ''https://nominatim.openstreetmap.org/reverse?format=json&lat=''
           @ float_str lat @ ''&lon='' @ float_str lon"
  by (simp add: get_weather_def weather_params_def reverse_geocode_def)

text \<open>
  C9 as stated fails at \<open>lat = 123\<close>, \<open>lon = 500\<close>: both lie outside their ranges, the
  weather handler forwards them as they are, and the caller gets the upstream's
  document with status 200.
\<close>

theorem get_weather_out_of_range_counterexample:
  "\<not> (- 90 \<le> (123::real) \<and> (123::real) \<le> 90)
   \<and> \<not> (- 180 \<le> (500::real) \<and> (500::real) \<le> 180)
   \<and> map_of (params (fst (get_weather 123 500 ''auto''
        (Inr \<lparr>status_code = 200, body_text = ''{}'', json = Some (JObj [])\<rparr>)))) ''latitude''
       = Some (PFloat 123)
   \<and> map_of (params (fst (get_weather 123 500 ''auto''
        (Inr \<lparr>status_code = 200, body_text = ''{}'', json = Some (JObj [])\<rparr>)))) ''longitude''
       = Some (PFloat 500)
   \<and> respond (snd (get_weather 123 500 ''auto''
        (Inr \<lparr>status_code = 200, body_text = ''{}'', json = Some (JObj [])\<rparr>)))
       = \<lparr>status = 200, content = JSONBody (JObj [])\<rparr>"
  by (simp add: get_weather_def weather_params_def respond_def)

section \<open>Raw interpolation into the geocoding URLs\<close>

text \<open>
  C10: for every \<open>q\<close> the URL of the search handler is exactly the fixed prefix, \<open>q\<close>
  as it is, and \<open>&limit=5\<close>; the URL of the reverse-geocoding handler is its fixed
  prefix with the formatted \<open>lat\<close> and \<open>lon\<close> inserted as they are. Nothing is
  percent-encoded, so each \<open>&\<close>-separated piece of \<open>q\<close> reaches the upstream as a
  parameter of its own (for a \<open>q\<close> without \<open>#\<close>): \<open>q = Berlin&limit=50&format=xml\<close> adds a
  second \<open>limit\<close> and a second \<open>format\<close>.
\<close>

theorem geocoding_urls_interpolate_raw:
  "url (fst (search_places q reply))
     = ''https://nominatim.openstreetmap.org/search?format=json&q='' @ q @ ''&limit=5''
   \<and> url (fst (reverse_geocode float_str lat lon reply))
       = ''https://nominatim.openstreetmap.org/reverse?format=json&lat=''
           @ float_str lat @ ''&lon='' @ float_str lon
   \<and> (CHR ''#'' \<notin> set q \<longrightarrow>
        query_pairs (url (fst (search_places q reply)))
          = (''format'', ''json'')
              # map key_value (split_on CHR ''&'' (''q='' @ q)) @ [(''limit'', ''5'')])
   \<and> query_pairs (url (fst (search_places ''Berlin&limit=50&format=xml'' reply)))
       = [(''format'', ''json''), (''q'', ''Berlin''), (''limit'', ''50''),
          (''format'', ''xml''), (''limit'', ''5'')]"
proof (intro conjI impI)
  show "url (fst (search_places q reply))
          = ''https://nominatim.openstreetmap.org/search?format=json&q='' @ q @ ''&limit=5''"
    by (simp add: search_places_def)
next
  show "url (fst (reverse_geocode float_str lat lon reply))
          = ''https://nominatim.openstreetmap.org/reverse?format=json&lat=''
              @ float_str lat @ ''&lon='' @ float_str lon"
    by (simp add: reverse_geocode_def)
next
  assume "CHR ''#'' \<notin> set q"
  then show "query_pairs (url (fst (search_places q reply)))
               = (''format'', ''json'')
                   # map key_value (split_on CHR ''&'' (''q='' @ q)) @ [(''limit'', ''5'')]"
    by (rule query_pairs_search)
next
  show "query_pairs (url (fst (search_places ''Berlin&limit=50&format=xml'' reply)))
          = [(''format'', ''json''), (''q'', ''Berlin''), (''limit'', ''50''),
             (''format'', ''xml''), (''limit'', ''5'')]"
    by (simp add: search_places_def query_pairs_def url_query_def key_value_def)
qed

theorem geocoding_urls_interpolate_raw_witness:
  "CHR ''#'' \<notin> set ''a&b=1''
   \<and> query_pairs (url (fst (search_places ''a&b=1'' (Inl RequestError))))
       = [(''format'', ''json''), (''q'', ''a''), (''b'', ''1''), (''limit'', ''5'')]"
proof -
  have no_hash: "CHR ''#'' \<notin> set ''a&b=1''"
    by simp
  from geocoding_urls_interpolate_raw [of "''a&b=1''" "Inl RequestError"] no_hash
  have "query_pairs (url (fst (search_places ''a&b=1'' (Inl RequestError))))
          = (''format'', ''json'')
              # map key_value (split_on CHR ''&'' (''q='' @ ''a&b=1'')) @ [(''limit'', ''5'')]"
    by blast
  then show ?thesis
    using no_hash by (simp add: key_value_def)
qed

end
